theory Spec2Isabelle
  imports Main "HOL-Library.Word"
begin

section \<open>The declarations of Rust.h\<close>

text \<open>
  The whole source is one C header, \<^verbatim>\<open>SwiftAppWindowC/include/Rust.h\<close>: two includes
  (\<^verbatim>\<open>stdbool.h\<close> for \<^verbatim>\<open>bool\<close>, \<^verbatim>\<open>stdint.h\<close> for \<^verbatim>\<open>uint8_t\<close> and
  \<^verbatim>\<open>uint16_t\<close>) and six \<^verbatim>\<open>extern\<close> function declarations. A declaration is data:
  its storage class, its return type, its name and its parameters in order, each a type
  and a name.
\<close>

subsection \<open>C types\<close>

text \<open>
  The qualifier of a pointer's target: \<^verbatim>\<open>const void *\<close> is \<open>CPtr ConstQ CVoid\<close>,
  \<^verbatim>\<open>void *\<close> is \<open>CPtr NoQ CVoid\<close>.
\<close>

datatype qualifier = ConstQ | NoQ

datatype ctype =
    CVoid
  | CBool
  | CUInt8
  | CUInt16
  | CDouble
  | CPtr qualifier ctype

datatype storage = Extern

datatype param = Param (ptype: ctype) (pname: string)

datatype decl = Decl (dstorage: storage) (dret: ctype) (dname: string) (dparams: "param list")

subsection \<open>The six declarations, in the order of the header (lines 11 to 16)\<close>

definition raw_input_finish_key_event_context :: decl where
  "raw_input_finish_key_event_context =
     Decl Extern CVoid ''raw_input_finish_key_event_context''
       [Param (CPtr ConstQ CVoid) ''context'']"

definition raw_input_finish_mouse_event_context :: decl where
  "raw_input_finish_mouse_event_context =
     Decl Extern CVoid ''raw_input_finish_mouse_event_context''
       [Param (CPtr ConstQ CVoid) ''context'']"

definition raw_input_key_notify_func :: decl where
  "raw_input_key_notify_func =
     Decl Extern CVoid ''raw_input_key_notify_func''
       [Param (CPtr ConstQ CVoid) ''context'',
        Param (CPtr NoQ CVoid) ''window'',
        Param CUInt16 ''keyCode'',
        Param CBool ''pressed'']"

definition raw_input_mouse_move :: decl where
  "raw_input_mouse_move =
     Decl Extern CVoid ''raw_input_mouse_move''
       [Param (CPtr ConstQ CVoid) ''context'',
        Param (CPtr NoQ CVoid) ''window'',
        Param CDouble ''windowPosX'',
        Param CDouble ''windowPosY'',
        Param CDouble ''windowWidth'',
        Param CDouble ''windowHeight'']"

definition raw_input_mouse_button :: decl where
  "raw_input_mouse_button =
     Decl Extern CVoid ''raw_input_mouse_button''
       [Param (CPtr ConstQ CVoid) ''context'',
        Param (CPtr NoQ CVoid) ''window'',
        Param CUInt8 ''button'',
        Param CBool ''down'']"

definition raw_input_mouse_scroll :: decl where
  "raw_input_mouse_scroll =
     Decl Extern CVoid ''raw_input_mouse_scroll''
       [Param (CPtr ConstQ CVoid) ''context'',
        Param (CPtr NoQ CVoid) ''window'',
        Param CDouble ''deltaX'',
        Param CDouble ''deltaY'']"

text \<open>The header: every function it declares, top to bottom.\<close>

definition Rust_h :: "decl list" where
  "Rust_h =
     [raw_input_finish_key_event_context,
      raw_input_finish_mouse_event_context,
      raw_input_key_notify_func,
      raw_input_mouse_move,
      raw_input_mouse_button,
      raw_input_mouse_scroll]"

subsection \<open>Reading a declaration\<close>

text \<open>
  What a C type is at the boundary: the fixed-width integers of \<^verbatim>\<open>stdint.h\<close> by
  their width in bits, \<^verbatim>\<open>double\<close> as the 64-bit IEEE 754 format, a pointer to
  (possibly qualified) \<^verbatim>\<open>void\<close> as an opaque pointer.
\<close>

datatype abi_type =
    AVoid
  | ABool
  | AUnsigned nat
  | AFloat nat
  | AOpaquePointer
  | ATypedPointer

fun abi_of :: "ctype \<Rightarrow> abi_type" where
  "abi_of CVoid = AVoid"
| "abi_of CBool = ABool"
| "abi_of CUInt8 = AUnsigned 8"
| "abi_of CUInt16 = AUnsigned 16"
| "abi_of CDouble = AFloat 64"
| "abi_of (CPtr q CVoid) = AOpaquePointer"
| "abi_of (CPtr q t) = ATypedPointer"

text \<open>The type a declaration gives to the parameter of a given name, if it has one.\<close>

definition param_type :: "decl \<Rightarrow> string \<Rightarrow> ctype option" where
  "param_type d n = map_of (map (\<lambda>p. (pname p, ptype p)) (dparams d)) n"

text \<open>
  C's \<^verbatim>\<open>const\<close>: an lvalue reached through a pointer to a const-qualified type is not
  modifiable, so only a pointer whose target is unqualified lets the callee write.
\<close>

fun grants_write :: "ctype \<Rightarrow> bool" where
  "grants_write (CPtr NoQ t) = True"
| "grants_write t = False"

text \<open>
  The two groups of functions. A context-release function carries \<^verbatim>\<open>finish\<close> in its
  name, after the common prefix; an event-notify function carries event data, that is, at
  least one argument that is not an opaque pointer.
\<close>

fun strip_prefix :: "string \<Rightarrow> string \<Rightarrow> string option" where
  "strip_prefix [] ys = Some ys"
| "strip_prefix (x # xs) [] = None"
| "strip_prefix (x # xs) (y # ys) = (if x = y then strip_prefix xs ys else None)"

definition is_finish :: "decl \<Rightarrow> bool" where
  "is_finish d = (strip_prefix ''raw_input_finish_'' (dname d) \<noteq> None)"

definition is_notify :: "decl \<Rightarrow> bool" where
  "is_notify d = list_ex (\<lambda>p. abi_of (ptype p) \<noteq> AOpaquePointer) (dparams d)"

subsection \<open>The signature list of the specification\<close>

text \<open>
  The specification's section on external interfaces lists six signatures with abstract
  types. They are written down here as the specification has them, names included, to be
  compared with what the header declares.
\<close>

datatype signature =
  Signature (sname: string) (sparams: "(string \<times> abi_type) list") (sret: abi_type)

definition spec_signatures :: "signature list" where
  "spec_signatures =
     [Signature ''finish_key_event_context''
        [(''context'', AOpaquePointer)] AVoid,
      Signature ''finish_mouse_event_context''
        [(''context'', AOpaquePointer)] AVoid,
      Signature ''key_notify''
        [(''context'', AOpaquePointer), (''window'', AOpaquePointer),
         (''keyCode'', AUnsigned 16), (''pressed'', ABool)] AVoid,
      Signature ''mouse_move''
        [(''context'', AOpaquePointer), (''window'', AOpaquePointer),
         (''posX'', AFloat 64), (''posY'', AFloat 64),
         (''width'', AFloat 64), (''height'', AFloat 64)] AVoid,
      Signature ''mouse_button''
        [(''context'', AOpaquePointer), (''window'', AOpaquePointer),
         (''button'', AUnsigned 8), (''down'', ABool)] AVoid,
      Signature ''mouse_scroll''
        [(''context'', AOpaquePointer), (''window'', AOpaquePointer),
         (''deltaX'', AFloat 64), (''deltaY'', AFloat 64)] AVoid]"

text \<open>
  How a name of the specification's list is spelled in the header: the prefix
  \<^verbatim>\<open>raw_input_\<close>, the name, and a suffix that is empty for all but one function.
\<close>

definition header_name :: "string \<Rightarrow> string \<Rightarrow> string" where
  "header_name n suffix = ''raw_input_'' @ n @ suffix"

text \<open>The argument types of a declaration, in order, as the boundary sees them.\<close>

definition arg_types :: "decl \<Rightarrow> abi_type list" where
  "arg_types d = map (abi_of \<circ> ptype) (dparams d)"

text \<open>
  The arguments of a declaration, in order, each by its name and its type at the
  boundary: two argument lists that differ in the position of an argument differ here,
  also when the arguments exchanged have the same type.
\<close>

definition named_args :: "decl \<Rightarrow> (string \<times> abi_type) list" where
  "named_args d = map (\<lambda>p. (pname p, abi_of (ptype p))) (dparams d)"

text \<open>
  The specification names the arguments twice. Its table of operations gives the inputs
  of each operation in order, written down here as the table has them, in the order of
  its rows.
\<close>

definition spec_operation_inputs :: "string list list" where
  "spec_operation_inputs =
     [[''context''],
      [''context''],
      [''context'', ''window'', ''keyCode'', ''pressed''],
      [''context'', ''window'', ''windowPosX'', ''windowPosY'', ''windowWidth'', ''windowHeight''],
      [''context'', ''window'', ''button'', ''down''],
      [''context'', ''window'', ''deltaX'', ''deltaY'']]"

text \<open>
  Its signature list shortens four of these names, those of mouse move: \<^verbatim>\<open>posX\<close>,
  \<^verbatim>\<open>posY\<close>, \<^verbatim>\<open>width\<close> and \<^verbatim>\<open>height\<close> for the cursor position and the window
  size. The name the table (and the data model) has for an argument of the signature
  list:
\<close>

definition header_param :: "string \<Rightarrow> string" where
  "header_param n =
     (if n = ''posX'' then ''windowPosX''
      else if n = ''posY'' then ''windowPosY''
      else if n = ''width'' then ''windowWidth''
      else if n = ''height'' then ''windowHeight''
      else n)"

section \<open>Calls across the boundary\<close>

subsection \<open>Argument values and the declared types\<close>

text \<open>
  The values a caller can pass. A pointer is opaque: only its identity matters, so a
  handle is a number. A \<^verbatim>\<open>double\<close> is its 64-bit IEEE 754 pattern; \<open>0\<close> is the
  pattern of \<^verbatim>\<open>0.0\<close>.
\<close>

type_synonym handle = nat

type_synonym double = "64 word"

datatype cvalue =
    VPtr handle
  | VBool bool
  | VUInt8 "8 word"
  | VUInt16 "16 word"
  | VDouble double

fun has_ctype :: "cvalue \<Rightarrow> ctype \<Rightarrow> bool" where
  "has_ctype (VPtr a) (CPtr q t) = True"
| "has_ctype (VBool b) CBool = True"
| "has_ctype (VUInt8 n) CUInt8 = True"
| "has_ctype (VUInt16 n) CUInt16 = True"
| "has_ctype (VDouble x) CDouble = True"
| "has_ctype v t = False"

text \<open>
  A declaration accepts an argument list that has one value of the declared type for
  each parameter, in order. The declarations of the header state no other condition.
\<close>

definition accepts :: "decl \<Rightarrow> cvalue list \<Rightarrow> bool" where
  "accepts d args = list_all2 has_ctype args (map ptype (dparams d))"

subsection \<open>The consumer behind the declarations\<close>

text \<open>
  The header declares the functions and defines none of them: their bodies are in the
  consumer's module, and their callers in the producer's module, and neither module is
  among the source files. The definitions of this subsection and the next follow the
  specification instead, each marked so.
\<close>

text \<open>
  Modelled from the spec: the four event payloads of the data model (KeyEvent,
  MouseMoveEvent, MouseButtonEvent, MouseScrollEvent), with the fields in the order of
  the notify functions' parameters. The header has no type for them.
\<close>

datatype event =
    KeyEvent "16 word" bool
  | MouseMoveEvent double double double double
  | MouseButtonEvent "8 word" bool
  | MouseScrollEvent double double

text \<open>
  Modelled from the spec: the consumer's state, which the missing consumer module owns.
  The specification routes every call to the listener identified by the context, so the
  state maps a context to what its listener has been delivered, oldest first, each event
  with the window it is for.
\<close>

type_synonym consumer = "handle \<Rightarrow> (handle \<times> event) list"

text \<open>
  Modelled from the spec: delivery of one event for a window to the listener identified
  by the context (the missing consumer module's handler entry). The call is synchronous
  and complete when it returns; nothing is accumulated, smoothed or dropped.
\<close>

definition deliver :: "handle \<Rightarrow> handle \<Rightarrow> event \<Rightarrow> consumer \<Rightarrow> consumer" where
  "deliver c w e s = s(c := s c @ [(w, e)])"

text \<open>
  Modelled from the spec: the body of \<^verbatim>\<open>raw_input_key_notify_func\<close>, missing from
  the sources: it delivers one KeyEvent for the window to the context's listener.
\<close>

definition raw_input_key_notify_func_body ::
  "handle \<Rightarrow> handle \<Rightarrow> 16 word \<Rightarrow> bool \<Rightarrow> consumer \<Rightarrow> consumer" where
  "raw_input_key_notify_func_body c w keyCode pressed s =
     deliver c w (KeyEvent keyCode pressed) s"

text \<open>
  Modelled from the spec: the body of \<^verbatim>\<open>raw_input_mouse_move\<close>, missing from the
  sources: it delivers one MouseMoveEvent, position and window size together.
\<close>

definition raw_input_mouse_move_body ::
  "handle \<Rightarrow> handle \<Rightarrow> double \<Rightarrow> double \<Rightarrow> double \<Rightarrow> double \<Rightarrow> consumer \<Rightarrow> consumer" where
  "raw_input_mouse_move_body c w windowPosX windowPosY windowWidth windowHeight s =
     deliver c w (MouseMoveEvent windowPosX windowPosY windowWidth windowHeight) s"

text \<open>
  Modelled from the spec: the body of \<^verbatim>\<open>raw_input_mouse_button\<close>, missing from the
  sources: it delivers one MouseButtonEvent.
\<close>

definition raw_input_mouse_button_body ::
  "handle \<Rightarrow> handle \<Rightarrow> 8 word \<Rightarrow> bool \<Rightarrow> consumer \<Rightarrow> consumer" where
  "raw_input_mouse_button_body c w button down s =
     deliver c w (MouseButtonEvent button down) s"

text \<open>
  Modelled from the spec: the body of \<^verbatim>\<open>raw_input_mouse_scroll\<close>, missing from the
  sources: it delivers one MouseScrollEvent with the raw deltas, whatever they are.
\<close>

definition raw_input_mouse_scroll_body ::
  "handle \<Rightarrow> handle \<Rightarrow> double \<Rightarrow> double \<Rightarrow> consumer \<Rightarrow> consumer" where
  "raw_input_mouse_scroll_body c w deltaX deltaY s =
     deliver c w (MouseScrollEvent deltaX deltaY) s"

subsection \<open>The producer in front of the declarations\<close>

text \<open>
  Modelled from the spec: a native input event as the missing producer module observes
  it: the context of the listener registered for it, the window it came from, and the
  event.
\<close>

datatype native = Native (n_context: handle) (n_window: handle) (n_event: event)

text \<open>
  Modelled from the spec: the call the missing producer makes for an observed event: the
  declared function it invokes and the arguments it passes.
\<close>

fun call_of :: "native \<Rightarrow> decl \<times> cvalue list" where
  "call_of (Native c w (KeyEvent k p)) =
     (raw_input_key_notify_func, [VPtr c, VPtr w, VUInt16 k, VBool p])"
| "call_of (Native c w (MouseMoveEvent x y wd ht)) =
     (raw_input_mouse_move, [VPtr c, VPtr w, VDouble x, VDouble y, VDouble wd, VDouble ht])"
| "call_of (Native c w (MouseButtonEvent b d)) =
     (raw_input_mouse_button, [VPtr c, VPtr w, VUInt8 b, VBool d])"
| "call_of (Native c w (MouseScrollEvent dx dy)) =
     (raw_input_mouse_scroll, [VPtr c, VPtr w, VDouble dx, VDouble dy])"

text \<open>
  Modelled from the spec: what that call does, the missing producer invoking one of the
  four notify functions for the event, synchronously.
\<close>

fun notify :: "native \<Rightarrow> consumer \<Rightarrow> consumer" where
  "notify (Native c w (KeyEvent k p)) s = raw_input_key_notify_func_body c w k p s"
| "notify (Native c w (MouseMoveEvent x y wd ht)) s = raw_input_mouse_move_body c w x y wd ht s"
| "notify (Native c w (MouseButtonEvent b d)) s = raw_input_mouse_button_body c w b d s"
| "notify (Native c w (MouseScrollEvent dx dy)) s = raw_input_mouse_scroll_body c w dx dy s"

text \<open>
  Modelled from the spec: one native thread of the missing producer. It takes the events
  in the order it observed them and makes one call for each; a call has returned before
  the next one is made.
\<close>

fun pump :: "native list \<Rightarrow> consumer \<Rightarrow> consumer" where
  "pump [] s = s"
| "pump (n # ns) s = pump ns (notify n s)"

text \<open>
  Modelled from the spec: two native threads of the missing producer calling
  concurrently, each with the events it observed, in its order. Every call is processed
  whole, so a run is an interleaving of the two threads' calls: at each step either
  thread makes its next call. \<open>threads xs ys s s'\<close>: from the consumer state \<open>s\<close>, some
  run of the two threads ends in \<open>s'\<close>.
\<close>

inductive threads :: "native list \<Rightarrow> native list \<Rightarrow> consumer \<Rightarrow> consumer \<Rightarrow> bool" where
  finished: "threads [] [] s s"
| first_calls: "threads xs ys (notify x s) s' \<Longrightarrow> threads (x # xs) ys s s'"
| second_calls: "threads xs ys (notify y s) s' \<Longrightarrow> threads xs (y # ys) s s'"

code_pred threads .

subsection \<open>The producer's windows\<close>

text \<open>
  Modelled from the spec: the window state of the missing producer module, which owns
  the native windows: for each window its current width and height.
\<close>

type_synonym windows = "handle \<Rightarrow> double \<times> double"

text \<open>
  Modelled from the spec: what the platform reports to the missing producer: a window
  was resized (the window, its new width and height), or an input happened for a
  listener's context on a window. A report of a cursor move has the position only; the
  window's size is not part of it.
\<close>

datatype platform_input =
    WindowResized handle double double
  | CursorMoved handle handle double double
  | ButtonChanged handle handle "8 word" bool
  | WheelScrolled handle handle double double
  | KeyChanged handle handle "16 word" bool

text \<open>
  Modelled from the spec: how a report changes the missing producer's window state. A
  resize sets the size of its window; nothing else changes a size.
\<close>

fun resize :: "platform_input \<Rightarrow> windows \<Rightarrow> windows" where
  "resize (WindowResized w wd ht) ws = ws(w := (wd, ht))"
| "resize i ws = ws"

text \<open>
  Modelled from the spec: the native event the missing producer observes for a report,
  if any. For a cursor move it reads the window's width and height from the window state
  at that moment and puts them beside the position; it keeps no copy of an earlier size.
\<close>

fun observe :: "platform_input \<Rightarrow> windows \<Rightarrow> native option" where
  "observe (WindowResized w wd ht) ws = None"
| "observe (CursorMoved c w x y) ws =
     Some (Native c w (MouseMoveEvent x y (fst (ws w)) (snd (ws w))))"
| "observe (ButtonChanged c w b d) ws = Some (Native c w (MouseButtonEvent b d))"
| "observe (WheelScrolled c w dx dy) ws = Some (Native c w (MouseScrollEvent dx dy))"
| "observe (KeyChanged c w k p) ws = Some (Native c w (KeyEvent k p))"

text \<open>
  Modelled from the spec: one step of the missing producer: for a report that is an
  input, the call of the notify function for the observed event; for a resize, the
  change of the window state and no call.
\<close>

fun producer_step :: "platform_input \<Rightarrow> windows \<times> consumer \<Rightarrow> windows \<times> consumer" where
  "producer_step i (ws, s) =
     (resize i ws, case observe i ws of None \<Rightarrow> s | Some n \<Rightarrow> notify n s)"

text \<open>
  Modelled from the spec: the missing producer handling the platform's reports one after
  the other, in the order they come.
\<close>

fun produce :: "platform_input list \<Rightarrow> windows \<times> consumer \<Rightarrow> windows \<times> consumer" where
  "produce [] st = st"
| "produce (i # ps) st = produce ps (producer_step i st)"

subsection \<open>What is compared\<close>

text \<open>
  The events the listener of a context has been delivered for one window, in the order
  of delivery, and the events of one context and window among those a thread observed,
  in the order of observation. All four kinds of event are in the one sequence.
\<close>

definition received :: "handle \<Rightarrow> handle \<Rightarrow> consumer \<Rightarrow> event list" where
  "received c w s = map snd (filter (\<lambda>d. fst d = w) (s c))"

definition observed :: "handle \<Rightarrow> handle \<Rightarrow> native list \<Rightarrow> event list" where
  "observed c w ns = map n_event (filter (\<lambda>n. n_context n = c \<and> n_window n = w) ns)"

lemmas body_defs =
  raw_input_key_notify_func_body_def raw_input_mouse_move_body_def
  raw_input_mouse_button_body_def raw_input_mouse_scroll_body_def

lemmas decl_defs =
  raw_input_finish_key_event_context_def raw_input_finish_mouse_event_context_def
  raw_input_key_notify_func_def raw_input_mouse_move_def raw_input_mouse_button_def
  raw_input_mouse_scroll_def

section \<open>Properties of the declarations\<close>

lemma Rust_h_names:
  "map dname Rust_h =
     [''raw_input_finish_key_event_context'',
      ''raw_input_finish_mouse_event_context'',
      ''raw_input_key_notify_func'',
      ''raw_input_mouse_move'',
      ''raw_input_mouse_button'',
      ''raw_input_mouse_scroll'']"
  by (simp add: Rust_h_def decl_defs)

lemma Rust_h_finish:
  "filter is_finish Rust_h =
     [raw_input_finish_key_event_context, raw_input_finish_mouse_event_context]"
  by (simp add: Rust_h_def decl_defs is_finish_def)

lemma Rust_h_notify:
  "filter is_notify Rust_h =
     [raw_input_key_notify_func, raw_input_mouse_move,
      raw_input_mouse_button, raw_input_mouse_scroll]"
  by (simp add: Rust_h_def decl_defs is_notify_def)

text \<open>
  C1. The header declares exactly six functions, with six different names: the two
  context-release functions (key channel, mouse channel) and the four event-notify
  functions (key, mouse move, mouse button, mouse scroll). Every declaration is in one of
  the two groups and none is in both, so there is no seventh function.
\<close>

theorem C1_exactly_six_operations:
  "length Rust_h = 6
   \<and> distinct (map dname Rust_h)
   \<and> filter is_finish Rust_h =
       [raw_input_finish_key_event_context, raw_input_finish_mouse_event_context]
   \<and> filter is_notify Rust_h =
       [raw_input_key_notify_func, raw_input_mouse_move,
        raw_input_mouse_button, raw_input_mouse_scroll]
   \<and> Rust_h = filter is_finish Rust_h @ filter is_notify Rust_h
   \<and> filter (\<lambda>d. is_finish d \<and> is_notify d) Rust_h = []"
proof -
  have len: "length Rust_h = 6"
    by (simp add: Rust_h_def)
  have dis: "distinct (map dname Rust_h)"
    unfolding Rust_h_names by simp
  have both: "filter (\<lambda>d. is_finish d \<and> is_notify d) Rust_h = []"
    by (simp add: Rust_h_def decl_defs is_notify_def is_finish_def)
  have split: "Rust_h = filter is_finish Rust_h @ filter is_notify Rust_h"
    unfolding Rust_h_finish Rust_h_notify by (simp add: Rust_h_def)
  from len dis both split show ?thesis
    using Rust_h_finish Rust_h_notify by simp
qed

text \<open>
  C3. Every one of the six declared functions has the return type \<^verbatim>\<open>void\<close>: none
  hands a value, so none hands an error or result code, back to its caller.
\<close>

theorem C3_all_return_void:
  "map dret Rust_h = [CVoid, CVoid, CVoid, CVoid, CVoid, CVoid]
   \<and> filter (\<lambda>d. abi_of (dret d) \<noteq> AVoid) Rust_h = []"
  by (simp add: Rust_h_def decl_defs)

text \<open>
  C4. The key notify function takes, after the context and the window, the key code as a
  16-bit unsigned integer (\<^verbatim>\<open>uint16_t keyCode\<close>) and then the pressed flag as a
  boolean (\<^verbatim>\<open>bool pressed\<close>), and nothing else.
\<close>

theorem C4_key_notify_payload:
  "map pname (dparams raw_input_key_notify_func) =
     [''context'', ''window'', ''keyCode'', ''pressed'']
   \<and> map ptype (drop 2 (dparams raw_input_key_notify_func)) = [CUInt16, CBool]
   \<and> map (abi_of \<circ> ptype) (drop 2 (dparams raw_input_key_notify_func)) =
       [AUnsigned 16, ABool]"
  by (simp add: raw_input_key_notify_func_def)

text \<open>
  C6. The mouse button function takes, after the context and the window, the button
  identifier as an 8-bit unsigned integer (\<^verbatim>\<open>uint8_t button\<close>) and then the down flag
  as a boolean (\<^verbatim>\<open>bool down\<close>), and nothing else.
\<close>

theorem C6_mouse_button_payload:
  "map pname (dparams raw_input_mouse_button) =
     [''context'', ''window'', ''button'', ''down'']
   \<and> map ptype (drop 2 (dparams raw_input_mouse_button)) = [CUInt8, CBool]
   \<and> map (abi_of \<circ> ptype) (drop 2 (dparams raw_input_mouse_button)) =
       [AUnsigned 8, ABool]"
  by (simp add: raw_input_mouse_button_def)

text \<open>
  C8. Each of the four notify functions starts its parameter list with the context, an
  opaque pointer, and then the window, an opaque pointer; the payload (never empty)
  comes after these two.
\<close>

theorem C8_notify_context_then_window:
  "map (\<lambda>d. map pname (take 2 (dparams d))) (filter is_notify Rust_h) =
     replicate 4 [''context'', ''window'']
   \<and> map (\<lambda>d. map (abi_of \<circ> ptype) (take 2 (dparams d))) (filter is_notify Rust_h) =
       replicate 4 [AOpaquePointer, AOpaquePointer]
   \<and> map (\<lambda>d. map pname (drop 2 (dparams d))) (filter is_notify Rust_h) =
       [[''keyCode'', ''pressed''],
        [''windowPosX'', ''windowPosY'', ''windowWidth'', ''windowHeight''],
        [''button'', ''down''],
        [''deltaX'', ''deltaY'']]"
  unfolding Rust_h_notify by (simp add: decl_defs numeral_eq_Suc)

text \<open>
  C10. In all six declarations the parameter named context has the type
  \<^verbatim>\<open>const void *\<close>, through which the callee may not write. The window parameter is
  absent from the two finish functions and has the unqualified type \<^verbatim>\<open>void *\<close> in
  the four notify functions.
\<close>

theorem C10_context_const_window_not:
  "map (\<lambda>d. param_type d ''context'') Rust_h = replicate 6 (Some (CPtr ConstQ CVoid))
   \<and> \<not> grants_write (CPtr ConstQ CVoid)
   \<and> map (\<lambda>d. param_type d ''window'') Rust_h =
       [None, None, Some (CPtr NoQ CVoid), Some (CPtr NoQ CVoid),
        Some (CPtr NoQ CVoid), Some (CPtr NoQ CVoid)]
   \<and> grants_write (CPtr NoQ CVoid)"
  by (simp add: Rust_h_def decl_defs param_type_def numeral_eq_Suc)

text \<open>
  C2, as the claim states it, fails: no declared name is the name of the specification's
  signature list. The third function, for one, is declared
  \<^verbatim>\<open>raw_input_key_notify_func\<close>, and the list calls it \<^verbatim>\<open>key_notify\<close>.
\<close>

theorem C2_names_differ:
  "map dname Rust_h \<noteq> map sname spec_signatures
   \<and> dname (Rust_h ! 2) = ''raw_input_key_notify_func''
   \<and> sname (spec_signatures ! 2) = ''key_notify''
   \<and> set (map dname Rust_h) \<inter> set (map sname spec_signatures) = {}"
  by (simp add: Rust_h_def decl_defs spec_signatures_def)

text \<open>
  C2, amended. Every declared name is the name of the specification's list with the
  prefix \<^verbatim>\<open>raw_input_\<close> before it, and for key notify also the suffix
  \<^verbatim>\<open>_func\<close> after it. The arguments of every declaration are, position by position,
  the arguments of the list's signature, each with the name and the type (so the width)
  the specification gives it: the names are those of the specification's table of
  operations, which the list shortens for mouse move only. The return types are those of
  the list.
\<close>

theorem C2_prefixed_names_same_types:
  "map dname Rust_h =
     map2 header_name (map sname spec_signatures) [[], [], ''_func'', [], [], []]
   \<and> map named_args Rust_h =
       map (\<lambda>s. map (\<lambda>a. (header_param (fst a), snd a)) (sparams s)) spec_signatures
   \<and> map (\<lambda>d. map pname (dparams d)) Rust_h = spec_operation_inputs
   \<and> map arg_types Rust_h = map (map snd \<circ> sparams) spec_signatures
   \<and> map (abi_of \<circ> dret) Rust_h = map sret spec_signatures"
proof -
  have names: "map dname Rust_h =
      map2 header_name (map sname spec_signatures) [[], [], ''_func'', [], [], []]"
    by (simp add: Rust_h_def decl_defs spec_signatures_def header_name_def)
  have args: "map named_args Rust_h =
      map (\<lambda>s. map (\<lambda>a. (header_param (fst a), snd a)) (sparams s)) spec_signatures"
    by (simp add: Rust_h_def decl_defs spec_signatures_def named_args_def header_param_def)
  have table: "map (\<lambda>d. map pname (dparams d)) Rust_h = spec_operation_inputs"
    by (simp add: Rust_h_def decl_defs spec_operation_inputs_def)
  have types: "map arg_types Rust_h = map (map snd \<circ> sparams) spec_signatures"
    by (simp add: Rust_h_def decl_defs spec_signatures_def arg_types_def)
  have rets: "map (abi_of \<circ> dret) Rust_h = map sret spec_signatures"
    by (simp add: Rust_h_def decl_defs spec_signatures_def)
  from names args table types rets show ?thesis
    by (intro conjI)
qed

section \<open>Properties of the calls\<close>

lemma notify_deliver: "notify n s = deliver (n_context n) (n_window n) (n_event n) s"
proof (cases n)
  case (Native c w e)
  then show ?thesis by (cases e) (simp_all add: body_defs)
qed

lemma received_deliver:
  "received c w (deliver c' w' e s) =
     received c w s @ (if c' = c \<and> w' = w then [e] else [])"
  by (simp add: received_def deliver_def)

lemma received_notify: "received c w (notify n s) = received c w s @ observed c w [n]"
  by (simp add: notify_deliver received_deliver observed_def)

lemma observed_Cons: "observed c w (n # ns) = observed c w [n] @ observed c w ns"
  by (simp add: observed_def)

lemma received_pump: "received c w (pump ns s) = received c w s @ observed c w ns"
proof (induction ns arbitrary: s)
  case Nil
  show ?case by (simp add: observed_def)
next
  case (Cons n ns)
  have "received c w (pump (n # ns) s) = received c w (notify n s) @ observed c w ns"
    using Cons.IH by simp
  also have "\<dots> = received c w s @ observed c w (n # ns)"
    by (simp add: received_notify observed_Cons [of c w n ns])
  finally show ?case .
qed

lemma call_of_accepted:
  "accepts (fst (call_of n)) (snd (call_of n)) \<and> fst (call_of n) \<in> set (filter is_notify Rust_h)"
proof (cases n)
  case (Native c w e)
  then show ?thesis
    unfolding Rust_h_notify by (cases e) (simp_all add: accepts_def decl_defs)
qed

lemma threads_single: "threads xs [] s s' \<longleftrightarrow> s' = pump xs s"
proof
  show "threads xs [] s s' \<Longrightarrow> s' = pump xs s"
    by (induction xs "[] :: native list" s s' rule: threads.induct) simp_all
  show "s' = pump xs s \<Longrightarrow> threads xs [] s s'"
    by (induction xs arbitrary: s) (auto intro: threads.intros)
qed

text \<open>
  C7. The declaration of the mouse scroll function accepts every pair of deltas, the pair
  of zeros included, and the call the producer makes for a zero scroll is a call of that
  function with both deltas zero. The function delivers one scroll event with the deltas
  it was given, for zero deltas as for any others; a zero scroll at the end of a thread's
  events is delivered after all the events before it.
\<close>

theorem C7_zero_scroll_delivered:
  "accepts raw_input_mouse_scroll [VPtr c, VPtr w, VDouble dx, VDouble dy]
   \<and> call_of (Native c w (MouseScrollEvent 0 0)) =
       (raw_input_mouse_scroll, [VPtr c, VPtr w, VDouble 0, VDouble 0])
   \<and> received c w (raw_input_mouse_scroll_body c w dx dy s) =
       received c w s @ [MouseScrollEvent dx dy]
   \<and> received c w (raw_input_mouse_scroll_body c w 0 0 s) =
       received c w s @ [MouseScrollEvent 0 0]
   \<and> received c w (pump (ns @ [Native c w (MouseScrollEvent 0 0)]) s) =
       received c w (pump ns s) @ [MouseScrollEvent 0 0]"
proof -
  have typed: "accepts raw_input_mouse_scroll [VPtr c, VPtr w, VDouble dx, VDouble dy]"
    by (simp add: accepts_def raw_input_mouse_scroll_def)
  have any: "received c w (raw_input_mouse_scroll_body c w x y s) =
      received c w s @ [MouseScrollEvent x y]" for x y
    by (simp add: raw_input_mouse_scroll_body_def received_deliver)
  have run: "received c w (pump (ns @ [Native c w (MouseScrollEvent 0 0)]) s) =
      received c w (pump ns s) @ [MouseScrollEvent 0 0]"
    by (simp add: received_pump observed_def)
  from typed any [of dx dy] any [of 0 0] run show ?thesis
    by simp
qed

text \<open>
  C9. In every run of the producer's threads, the events delivered to a context's
  listener for one window are the events observed for that context and window, in the
  order of observation, whatever their kinds, when one thread observes them all (the
  other thread serves other contexts and windows). They come after what the listener had
  been delivered before the run.
\<close>

theorem C9_fifo_per_source:
  assumes run: "threads xs ys s s'" and other: "observed c w ys = []"
  shows "received c w s' = received c w s @ observed c w xs"
  using run other
proof (induction rule: threads.induct)
  case (finished s)
  show ?case by (simp add: observed_def)
next
  case (first_calls xs ys x s s')
  then have "received c w s' = received c w (notify x s) @ observed c w xs"
    by simp
  then show ?case
    by (simp add: received_notify observed_Cons [of c w x xs])
next
  case (second_calls xs ys y s s')
  from second_calls.prems have y: "observed c w [y] = []" and ys: "observed c w ys = []"
    by (simp_all add: observed_def split: if_splits)
  from second_calls.IH [OF ys] y show ?case
    by (simp add: received_notify)
qed

text \<open>
  A run for C9: a button press, a move, a button release and a zero scroll of window 7,
  interleaved with two key events of window 8 from the other thread.
\<close>

theorem C9_fifo_per_source_witness:
  "threads
     [Native 1 7 (MouseButtonEvent 0 True),
      Native 1 7 (MouseMoveEvent 0x4024000000000000 0x4034000000000000
                    0x4089000000000000 0x4082C00000000000),
      Native 1 7 (MouseButtonEvent 0 False),
      Native 1 7 (MouseScrollEvent 0 0)]
     [Native 1 8 (KeyEvent 36 True), Native 2 8 (KeyEvent 36 False)]
     (\<lambda>c. [])
     (pump
       [Native 1 7 (MouseButtonEvent 0 True),
        Native 1 8 (KeyEvent 36 True),
        Native 1 7 (MouseMoveEvent 0x4024000000000000 0x4034000000000000
                      0x4089000000000000 0x4082C00000000000),
        Native 1 7 (MouseButtonEvent 0 False),
        Native 2 8 (KeyEvent 36 False),
        Native 1 7 (MouseScrollEvent 0 0)]
       (\<lambda>c. []))
   \<and> observed 1 7 [Native 1 8 (KeyEvent 36 True), Native 2 8 (KeyEvent 36 False)] = []
   \<and> received 1 7
       (pump
         [Native 1 7 (MouseButtonEvent 0 True),
          Native 1 8 (KeyEvent 36 True),
          Native 1 7 (MouseMoveEvent 0x4024000000000000 0x4034000000000000
                        0x4089000000000000 0x4082C00000000000),
          Native 1 7 (MouseButtonEvent 0 False),
          Native 2 8 (KeyEvent 36 False),
          Native 1 7 (MouseScrollEvent 0 0)]
         (\<lambda>c. [])) =
       [MouseButtonEvent 0 True,
        MouseMoveEvent 0x4024000000000000 0x4034000000000000
          0x4089000000000000 0x4082C00000000000,
        MouseButtonEvent 0 False,
        MouseScrollEvent 0 0]"
proof -
  let ?down = "Native 1 7 (MouseButtonEvent 0 True)"
  let ?move = "Native 1 7 (MouseMoveEvent 0x4024000000000000 0x4034000000000000
                    0x4089000000000000 0x4082C00000000000)"
  let ?up = "Native 1 7 (MouseButtonEvent 0 False)"
  let ?scroll = "Native 1 7 (MouseScrollEvent 0 0)"
  let ?key = "Native 1 8 (KeyEvent 36 True)"
  let ?key' = "Native 2 8 (KeyEvent 36 False)"
  let ?s0 = "(\<lambda>c. []) :: consumer"
  let ?s' = "pump [?down, ?key, ?move, ?up, ?key', ?scroll] ?s0"
  have run: "threads [?down, ?move, ?up, ?scroll] [?key, ?key'] ?s0 ?s'"
    unfolding pump.simps
    apply (rule threads.first_calls)
    apply (rule threads.second_calls)
    apply (rule threads.first_calls)
    apply (rule threads.first_calls)
    apply (rule threads.second_calls)
    apply (rule threads.first_calls)
    apply (rule threads.finished)
    done
  have other: "observed 1 7 [?key, ?key'] = []"
    by (simp add: observed_def)
  have "received 1 7 ?s' = received 1 7 ?s0 @ observed 1 7 [?down, ?move, ?up, ?scroll]"
    using run other by (rule C9_fifo_per_source)
  then have "received 1 7 ?s' =
      [MouseButtonEvent 0 True,
       MouseMoveEvent 0x4024000000000000 0x4034000000000000
         0x4089000000000000 0x4082C00000000000,
       MouseButtonEvent 0 False,
       MouseScrollEvent 0 0]"
    by (simp add: received_def observed_def)
  with run other show ?thesis
    by (intro conjI)
qed

lemma threads_commute: "threads xs ys s s' \<Longrightarrow> threads ys xs s s'"
  by (induction rule: threads.induct) (auto intro: threads.intros)

lemma produce_append: "produce (ps @ qs) st = produce qs (produce ps st)"
  by (induction ps arbitrary: st) simp_all

lemma produce_move:
  "snd (produce (ps @ [CursorMoved c w x y]) st) c =
     snd (produce ps st) c @
       [(w, MouseMoveEvent x y (fst (fst (produce ps st) w)) (snd (fst (produce ps st) w)))]"
proof -
  obtain ws s where now: "produce ps st = (ws, s)"
    by (cases "produce ps st")
  show ?thesis
    by (simp add: produce_append now raw_input_mouse_move_body_def deliver_def)
qed

lemma produce_resize: "fst (produce (ps @ [WindowResized w wd ht]) st) w = (wd, ht)"
proof -
  obtain ws s where now: "produce ps st = (ws, s)"
    by (cases "produce ps st")
  show ?thesis
    by (simp add: produce_append now)
qed

lemma produce_resize_move:
  "snd (produce (ps @ [WindowResized w wd ht, CursorMoved c w x y]) st) c =
     snd (produce ps st) c @ [(w, MouseMoveEvent x y wd ht)]"
proof -
  obtain ws s where now: "produce ps st = (ws, s)"
    by (cases "produce ps st")
  show ?thesis
    by (simp add: produce_append now raw_input_mouse_move_body_def deliver_def)
qed

lemma produce_keeps:
  "\<exists>zs. snd (produce (ps @ qs) st) c = snd (produce ps st) c @ zs"
proof (induction qs arbitrary: ps)
  case Nil
  show ?case by simp
next
  case (Cons q qs)
  obtain ws s where now: "produce ps st = (ws, s)"
    by (cases "produce ps st")
  have one: "\<exists>zs. snd (produce (ps @ [q]) st) c = snd (produce ps st) c @ zs"
    by (cases "observe q ws")
      (simp_all add: produce_append now notify_deliver deliver_def)
  from Cons.IH [of "ps @ [q]"] one show ?case
    by auto
qed

lemma produce_move_stays:
  "\<exists>zs. snd (produce (ps @ CursorMoved c w x y # qs) st) c =
     snd (produce ps st) c @
       (w, MouseMoveEvent x y (fst (fst (produce ps st) w)) (snd (fst (produce ps st) w))) # zs"
proof -
  from produce_keeps [of "ps @ [CursorMoved c w x y]" qs st c]
  obtain zs where "snd (produce (ps @ CursorMoved c w x y # qs) st) c =
      snd (produce (ps @ [CursorMoved c w x y]) st) c @ zs"
    by auto
  then show ?thesis
    by (simp add: produce_move)
qed

text \<open>
  A run: a move in a window of 640 by 480, a resize of that window to 800 by 600, a
  resize of another window, a second move, a key. The second move carries the new size.
\<close>

lemma produce_example:
  "snd (produce
      [CursorMoved 1 7 10 20, WindowResized 7 800 600, WindowResized 8 5 5,
       CursorMoved 1 7 11 21, KeyChanged 1 7 3 True]
      (\<lambda>w. (640, 480), \<lambda>c. [])) 1 =
     [(7, MouseMoveEvent 10 20 640 480), (7, MouseMoveEvent 11 21 800 600),
      (7, KeyEvent 3 True)]"
  by (simp add: body_defs deliver_def)

text \<open>
  C5. The mouse move function takes the cursor position (\<^verbatim>\<open>windowPosX\<close>,
  \<^verbatim>\<open>windowPosY\<close>) and the window size (\<^verbatim>\<open>windowWidth\<close>, \<^verbatim>\<open>windowHeight\<close>)
  in one parameter list, all four of type \<^verbatim>\<open>double\<close>. The size is passed by this
  function only, and no function of the header returns a value, so the header has no
  window-size query beside it. For every cursor move the producer calls that function
  with the position and with the width and height the window has at that moment, and the
  declaration accepts the call. Whatever the producer handled before, the event delivered
  for the move carries the window's size of that moment next to the position, and it
  stays so in what the listener has been delivered, whatever the producer handles after.
  A resize sets that size, so a move right after a resize carries the new size and not
  an earlier one.
\<close>

theorem C5_mouse_move_carries_size:
  "map (\<lambda>p. (pname p, ptype p)) (drop 2 (dparams raw_input_mouse_move)) =
     [(''windowPosX'', CDouble), (''windowPosY'', CDouble),
      (''windowWidth'', CDouble), (''windowHeight'', CDouble)]
   \<and> drop 2 (arg_types raw_input_mouse_move) = replicate 4 (AFloat 64)
   \<and> filter (\<lambda>d. param_type d ''windowWidth'' \<noteq> None) Rust_h = [raw_input_mouse_move]
   \<and> filter (\<lambda>d. param_type d ''windowHeight'' \<noteq> None) Rust_h = [raw_input_mouse_move]
   \<and> filter (\<lambda>d. dret d \<noteq> CVoid) Rust_h = []
   \<and> map_option call_of (observe (CursorMoved c w x y) ws) =
       Some (raw_input_mouse_move,
         [VPtr c, VPtr w, VDouble x, VDouble y, VDouble (fst (ws w)), VDouble (snd (ws w))])
   \<and> accepts raw_input_mouse_move
       [VPtr c, VPtr w, VDouble x, VDouble y, VDouble (fst (ws w)), VDouble (snd (ws w))]
   \<and> snd (produce (ps @ [CursorMoved c w x y]) st) c =
       snd (produce ps st) c @
         [(w, MouseMoveEvent x y (fst (fst (produce ps st) w)) (snd (fst (produce ps st) w)))]
   \<and> (\<exists>zs. snd (produce (ps @ CursorMoved c w x y # qs) st) c =
         snd (produce ps st) c @
           (w, MouseMoveEvent x y (fst (fst (produce ps st) w)) (snd (fst (produce ps st) w)))
             # zs)
   \<and> fst (produce (ps @ [WindowResized w wd ht]) st) w = (wd, ht)
   \<and> snd (produce (ps @ [WindowResized w wd ht, CursorMoved c w x y]) st) c =
       snd (produce ps st) c @ [(w, MouseMoveEvent x y wd ht)]"
proof -
  have params:
    "map (\<lambda>p. (pname p, ptype p)) (drop 2 (dparams raw_input_mouse_move)) =
       [(''windowPosX'', CDouble), (''windowPosY'', CDouble),
        (''windowWidth'', CDouble), (''windowHeight'', CDouble)]"
    by (simp add: raw_input_mouse_move_def)
  have types: "drop 2 (arg_types raw_input_mouse_move) = replicate 4 (AFloat 64)"
    by (simp add: raw_input_mouse_move_def arg_types_def numeral_eq_Suc)
  have width: "filter (\<lambda>d. param_type d ''windowWidth'' \<noteq> None) Rust_h = [raw_input_mouse_move]"
    by (simp add: Rust_h_def decl_defs param_type_def)
  have height: "filter (\<lambda>d. param_type d ''windowHeight'' \<noteq> None) Rust_h = [raw_input_mouse_move]"
    by (simp add: Rust_h_def decl_defs param_type_def)
  have void: "filter (\<lambda>d. dret d \<noteq> CVoid) Rust_h = []"
    by (simp add: Rust_h_def decl_defs)
  have call: "map_option call_of (observe (CursorMoved c w x y) ws) =
      Some (raw_input_mouse_move,
        [VPtr c, VPtr w, VDouble x, VDouble y, VDouble (fst (ws w)), VDouble (snd (ws w))])"
    by simp
  have typed: "accepts raw_input_mouse_move
      [VPtr c, VPtr w, VDouble x, VDouble y, VDouble (fst (ws w)), VDouble (snd (ws w))]"
    by (simp add: accepts_def raw_input_mouse_move_def)
  from params types width height void call typed
    produce_move [of ps c w x y st] produce_move_stays [of ps c w x y qs st]
    produce_resize [of ps w wd ht st]
    produce_resize_move [of ps w wd ht c x y st]
  show ?thesis
    by (intro conjI)
qed

end
